theory Spec2Isabelle
  imports Main
begin

section \<open>JavaScript values as the client reads them\<close>

text \<open>
  The client (\<^verbatim>\<open>generateMemoryVideo\<close>) receives response bodies that axios has parsed
  from JSON and reads them with property access, \<^verbatim>\<open>||\<close>, \<^verbatim>\<open>!\<close>, \<^verbatim>\<open>===\<close> and template
  literals. A value is a JSON value or \<^verbatim>\<open>undefined\<close>. Numbers are the integers (seeds,
  counts, codes): \<open>Num n\<close> is the JavaScript number \<open>n\<close> for \<open>\<bar>n\<bar> \<le> 2 ^ 53\<close>, the range in
  which every integer is a double of its own. An object lists its own properties, each
  key once.
\<close>

datatype jsval =
    Undefined
  | Null
  | Bool bool
  | Num int
  | Str string
  | Arr "jsval list"
  | Obj "(string \<times> jsval) list"

text \<open>What a \<^verbatim>\<open>throw\<close> carries: a \<^verbatim>\<open>TypeError\<close> of the runtime (a property read on
  \<^verbatim>\<open>null\<close> or \<^verbatim>\<open>undefined\<close>), a plain \<^verbatim>\<open>new Error(message)\<close>, or the error axios rejects
  with, whose \<^verbatim>\<open>response\<close> (when the server answered) holds the HTTP status.\<close>

datatype error =
    TypeError
  | JsError string
  | AxiosError "int option"

datatype outcome = Return jsval | Throw error

fun truthy :: "jsval \<Rightarrow> bool" where
  "truthy Undefined = False"
| "truthy Null = False"
| "truthy (Bool b) = b"
| "truthy (Num n) = (n \<noteq> 0)"
| "truthy (Str s) = (s \<noteq> [])"
| "truthy (Arr xs) = True"
| "truthy (Obj kvs) = True"

text \<open>\<^verbatim>\<open>a || b\<close>: the left operand when it is truthy, the right one otherwise.\<close>

definition js_or :: "jsval \<Rightarrow> jsval \<Rightarrow> jsval" where
  "js_or a b = (if truthy a then a else b)"

fun nullish :: "jsval \<Rightarrow> bool" where
  "nullish Undefined = True"
| "nullish Null = True"
| "nullish v = False"

text \<open>\<^verbatim>\<open>v.k\<close> on a receiver that is neither \<^verbatim>\<open>null\<close> nor \<^verbatim>\<open>undefined\<close>, for the keys
  the client reads (\<^verbatim>\<open>video\<close>, \<^verbatim>\<open>url\<close>, \<^verbatim>\<open>output\<close>, \<^verbatim>\<open>status\<close>, \<^verbatim>\<open>request_id\<close>, \<^verbatim>\<open>id\<close>,
  \<^verbatim>\<open>status_url\<close>, \<^verbatim>\<open>error\<close>): none of them is inherited from a prototype, so only an
  object that has the key as its own property yields a value.\<close>

fun prop_of :: "jsval \<Rightarrow> string \<Rightarrow> jsval" where
  "prop_of (Obj kvs) k = (case map_of kvs k of Some v \<Rightarrow> v | None \<Rightarrow> Undefined)"
| "prop_of v k = Undefined"

text \<open>\<^verbatim>\<open>v.k\<close> in general: a read on \<^verbatim>\<open>null\<close> or \<^verbatim>\<open>undefined\<close> throws.\<close>

definition get_prop :: "jsval \<Rightarrow> string \<Rightarrow> error + jsval" where
  "get_prop v k = (if nullish v then Inl TypeError else Inr (prop_of v k))"

text \<open>\<^verbatim>\<open>v?.k\<close>: \<^verbatim>\<open>undefined\<close> on \<^verbatim>\<open>null\<close> or \<^verbatim>\<open>undefined\<close>, the read otherwise.\<close>

definition opt_chain :: "jsval \<Rightarrow> string \<Rightarrow> jsval" where
  "opt_chain v k = (if nullish v then Undefined else prop_of v k)"

fun is_array :: "jsval \<Rightarrow> bool" where
  "is_array (Arr xs) = True"
| "is_array v = False"

fun array_length :: "jsval \<Rightarrow> nat" where
  "array_length (Arr xs) = length xs"
| "array_length v = 0"

subsection \<open>String conversion in template literals\<close>

fun dec_nat :: "nat \<Rightarrow> string" where
  "dec_nat n =
     (if n < 10 then [''0123456789'' ! n]
      else dec_nat (n div 10) @ [''0123456789'' ! (n mod 10)])"

declare dec_nat.simps [simp del]

fun join_comma :: "string list \<Rightarrow> string" where
  "join_comma [] = []"
| "join_comma [s] = s"
| "join_comma (s # t # ss) = s @ '','' @ join_comma (t # ss)"

text \<open>\<^verbatim>\<open>`${v}`\<close>: an array joins its elements with commas, \<^verbatim>\<open>null\<close> and \<^verbatim>\<open>undefined\<close>
  elements giving the empty string; a plain object prints as \<^verbatim>\<open>[object Object]\<close>.\<close>

fun to_string :: "jsval \<Rightarrow> string" where
  "to_string Undefined = ''undefined''"
| "to_string Null = ''null''"
| "to_string (Bool b) = (if b then ''true'' else ''false'')"
| "to_string (Num n) = (if n < 0 then ''-'' @ dec_nat (nat (- n)) else dec_nat (nat n))"
| "to_string (Str s) = s"
| "to_string (Arr xs) = join_comma (map (\<lambda>v. if nullish v then [] else to_string v) xs)"
| "to_string (Obj kvs) = ''[object Object]''"


section \<open>Requests, replies and what a run leaves behind\<close>

type_synonym headers = "(string \<times> string) list"

record post_request =
  post_url :: string
  post_body :: jsval
  post_headers :: headers
  post_timeout :: nat

text \<open>What axios does with a request: it resolves with the parsed body, or rejects with an
  error that carries the HTTP status when the server answered (a status outside 2xx) and
  none when it did not (network failure, timeout).\<close>

datatype reply = Responded jsval | Failed "int option"

text \<open>The service as one call sees it: the reply to the POST and the reply to the k-th GET,
  each with the milliseconds that pass until it arrives (for a GET, on top of the wait
  before it).\<close>

record server =
  post_reply :: "nat \<times> reply"
  get_reply :: "nat \<Rightarrow> nat \<times> reply"

text \<open>The effects of a run, in the order they happen: a call of \<^verbatim>\<open>onStatusUpdate\<close>, the
  POST, the wait before a poll, the GET of a poll.\<close>

datatype event =
    Progress jsval
  | Post post_request
  | Wait nat
  | Get jsval headers

record run_state =
  clock :: nat
  polls :: nat
  trace :: "event list"

section \<open>The client\<close>

definition API_URL :: string where
  "API_URL = ''https://platform.higgsfield.ai/higgsfield-ai/dop/lite''"

definition TIMEOUT_MS :: nat where
  "TIMEOUT_MS = 2000000"

definition POLLING_INTERVAL :: nat where
  "POLLING_INTERVAL = 5000"

definition payload :: "string \<Rightarrow> jsval" where
  "payload imageUrl = Obj
     [(''prompt'', Str ''recreate the uploaded image into a real-life motion like video''),
      (''image2video_model'', Str ''dop-lite''),
      (''seed'', Num 36644),
      (''motions'', Arr [Obj [(''id'', Str ''31177282-bde3-4870-b283-1135ca0a201a''),
                              (''strength'', Num 1)]]),
      (''image_url'', Str imageUrl),
      (''input_images'', Arr [Obj [(''type'', Str ''image_url''),
                                   (''image_url'', Str imageUrl)]]),
      (''enhance_prompt'', Bool True),
      (''check_nsfw'', Bool True)]"

definition request_headers :: "string \<Rightarrow> string \<Rightarrow> headers" where
  "request_headers apiKey apiSecret =
     [(''Content-Type'', ''application/json''),
      (''hf-api-key'', apiKey),
      (''hf-secret'', apiSecret)]"

text \<open>\<^verbatim>\<open>onStatusUpdate\<close> is optional: \<^verbatim>\<open>if (onStatusUpdate) onStatusUpdate(v)\<close>. The
  callback records its argument and returns.\<close>

definition notify :: "bool \<Rightarrow> jsval \<Rightarrow> event list" where
  "notify onStatusUpdate v = (if onStatusUpdate then [Progress v] else [])"

text \<open>The helper \<^verbatim>\<open>isVideoReady\<close>. Every read is on \<^verbatim>\<open>response\<close> itself, so it throws
  exactly when \<^verbatim>\<open>response\<close> is \<^verbatim>\<open>null\<close> or \<^verbatim>\<open>undefined\<close>, at the first read.\<close>

definition isVideoReady :: "jsval \<Rightarrow> error + jsval" where
  "isVideoReady response =
     (if nullish response then Inl TypeError
      else Inr (js_or (opt_chain (prop_of response ''video'') ''url'')
               (js_or (prop_of response ''output'')
               (js_or (prop_of response ''url'')
                      (Bool (is_array (prop_of response ''output'')
                             \<and> 0 < array_length (prop_of response ''output'')))))))"

text \<open>The body of the \<^verbatim>\<open>try\<close> block of one poll, after the GET has settled: the calls of
  the callback it makes, and how it ends: \<^verbatim>\<open>Inl e\<close> when it throws \<^verbatim>\<open>e\<close>,
  \<^verbatim>\<open>Inr (Some data)\<close> when it returns \<^verbatim>\<open>data\<close>, \<^verbatim>\<open>Inr None\<close> when it falls through.\<close>

definition poll_try :: "bool \<Rightarrow> reply \<Rightarrow> event list \<times> (error + jsval option)" where
  "poll_try onStatusUpdate rep =
     (case rep of
        Failed status \<Rightarrow> ([], Inl (AxiosError status))
      | Responded data \<Rightarrow>
          (case get_prop data ''status'' of
             Inl e \<Rightarrow> ([], Inl e)
           | Inr s \<Rightarrow>
               (let currentStatus = js_or s (Str ''in_progress'');
                    calls = notify onStatusUpdate currentStatus
                in if currentStatus = Str ''completed'' \<or> currentStatus = Str ''success''
                   then (calls, Inr (Some data))
                   else (case isVideoReady data of
                           Inl e \<Rightarrow> (calls, Inl e)
                         | Inr ready \<Rightarrow>
                             if truthy ready then (calls, Inr (Some data))
                             else if currentStatus = Str ''failed'' \<or> currentStatus = Str ''nsfw''
                             then (calls, Inl (JsError (''Video generation failed: '' @
                                     to_string (js_or (prop_of data ''error'') currentStatus))))
                             else (calls, Inr None)))))"

text \<open>\<^verbatim>\<open>pollError.response && pollError.response.status\<close>: only an axios error whose
  request was answered has a response.\<close>

fun response_status :: "error \<Rightarrow> int option" where
  "response_status (AxiosError status) = status"
| "response_status e = None"

text \<open>The \<^verbatim>\<open>catch (pollError)\<close> block of one poll: \<^verbatim>\<open>Some e\<close> when it throws \<^verbatim>\<open>e\<close> on,
  \<^verbatim>\<open>None\<close> when it swallows the error and the loop goes on.\<close>

definition poll_catch :: "error \<Rightarrow> error option" where
  "poll_catch pollError =
     (case response_status pollError of
        None \<Rightarrow> None
      | Some status \<Rightarrow>
          if 400 \<le> status \<and> status < 500 \<and> status \<noteq> 429 then Some pollError else None)"

text \<open>The \<^verbatim>\<open>try\<close>/\<^verbatim>\<open>catch\<close> statement of one poll as a whole: \<^verbatim>\<open>Some out\<close> when it leaves
  the loop (a \<^verbatim>\<open>return\<close> in the \<^verbatim>\<open>try\<close> block, a \<^verbatim>\<open>throw\<close> in the \<^verbatim>\<open>catch\<close> block),
  \<^verbatim>\<open>None\<close> when control reaches the loop condition again.\<close>

definition poll_attempt :: "bool \<Rightarrow> reply \<Rightarrow> outcome option" where
  "poll_attempt onStatusUpdate rep =
     (case snd (poll_try onStatusUpdate rep) of
        Inr (Some data) \<Rightarrow> Some (Return data)
      | Inr None \<Rightarrow> None
      | Inl pollError \<Rightarrow>
          (case poll_catch pollError of
             Some e \<Rightarrow> Some (Throw e)
           | None \<Rightarrow> None))"

definition timeout_message :: string where
  "timeout_message = ''Timed out waiting for video generation (2000s limit reached).''"

text \<open>One pass of the loop body, as it changes the run: the wait of \<^verbatim>\<open>POLLING_INTERVAL\<close>,
  the GET and the time until it settles, and the calls of the callback in the
  \<^verbatim>\<open>try\<close> block. \<^verbatim>\<open>Date.now()\<close> is the clock of the run state, in milliseconds.\<close>

definition poll_state :: "server \<Rightarrow> bool \<Rightarrow> jsval \<Rightarrow> headers \<Rightarrow> run_state \<Rightarrow> run_state" where
  "poll_state srv onStatusUpdate statusUrl hdrs st =
     \<lparr>clock = clock st + POLLING_INTERVAL + fst (get_reply srv (polls st)),
      polls = Suc (polls st),
      trace = trace st @ [Wait POLLING_INTERVAL, Get statusUrl hdrs] @
              fst (poll_try onStatusUpdate (snd (get_reply srv (polls st))))\<rparr>"

text \<open>The polling loop: \<^verbatim>\<open>while (Date.now() - startTime < TIMEOUT_MS)\<close>, and the
  \<^verbatim>\<open>throw\<close> after it.\<close>

function poll_loop ::
  "server \<Rightarrow> bool \<Rightarrow> jsval \<Rightarrow> headers \<Rightarrow> nat \<Rightarrow> run_state \<Rightarrow> outcome \<times> run_state" where
  "poll_loop srv onStatusUpdate statusUrl hdrs startTime st =
     (if clock st - startTime < TIMEOUT_MS then
        (case poll_attempt onStatusUpdate (snd (get_reply srv (polls st))) of
           Some out \<Rightarrow> (out, poll_state srv onStatusUpdate statusUrl hdrs st)
         | None \<Rightarrow>
             poll_loop srv onStatusUpdate statusUrl hdrs startTime
               (poll_state srv onStatusUpdate statusUrl hdrs st))
      else (Throw (JsError timeout_message), st))"
  by pat_completeness auto
termination
  by (relation "measure (\<lambda>(srv, cb, url, hdrs, startTime, st). startTime + TIMEOUT_MS - clock st)")
     (auto simp: POLLING_INTERVAL_def poll_state_def)

declare poll_loop.simps [simp del]

text \<open>The polling path once the status URL is known: the callback gets the status of the
  initial response (or \<^verbatim>\<open>Queued\<close>), \<^verbatim>\<open>startTime\<close> is read off the clock, the loop runs.\<close>

definition start_polling ::
  "server \<Rightarrow> bool \<Rightarrow> jsval \<Rightarrow> jsval \<Rightarrow> headers \<Rightarrow> run_state \<Rightarrow> outcome \<times> run_state" where
  "start_polling srv onStatusUpdate data statusUrl hdrs st =
     (let st' = st\<lparr>trace := trace st @
                   notify onStatusUpdate (js_or (prop_of data ''status'') (Str ''Queued''))\<rparr>;
          startTime = clock st'
      in poll_loop srv onStatusUpdate statusUrl hdrs startTime st')"

text \<open>The POST, as the call sends it.\<close>

definition initial_request :: "string \<Rightarrow> string \<Rightarrow> string \<Rightarrow> post_request" where
  "initial_request imageUrl apiKey apiSecret =
     \<lparr>post_url = API_URL, post_body = payload imageUrl,
      post_headers = request_headers apiKey apiSecret, post_timeout = 30000\<rparr>"

text \<open>The run once the POST has settled, for a call made at time \<^verbatim>\<open>now\<close>: the callback
  has been given \<^verbatim>\<open>Initializing...\<close>, then the POST was sent.\<close>

definition post_state ::
  "server \<Rightarrow> string \<Rightarrow> string \<Rightarrow> string \<Rightarrow> bool \<Rightarrow> nat \<Rightarrow> run_state" where
  "post_state srv imageUrl apiKey apiSecret onStatusUpdate now =
     \<lparr>clock = now + fst (post_reply srv),
      polls = 0,
      trace = notify onStatusUpdate (Str ''Initializing...'') @
              [Post (initial_request imageUrl apiKey apiSecret)]\<rparr>"

text \<open>\<^verbatim>\<open>generateMemoryVideo\<close>, called at time \<^verbatim>\<open>now\<close>. The outer \<^verbatim>\<open>catch\<close> logs and throws
  the same error on, so an error of the body is the error of the call.\<close>

definition generateMemoryVideo ::
  "server \<Rightarrow> string \<Rightarrow> string \<Rightarrow> string \<Rightarrow> bool \<Rightarrow> nat \<Rightarrow> outcome \<times> run_state" where
  "generateMemoryVideo srv imageUrl apiKey apiSecret onStatusUpdate now =
     (let hdrs = request_headers apiKey apiSecret;
          st = post_state srv imageUrl apiKey apiSecret onStatusUpdate now
      in case snd (post_reply srv) of
           Failed status \<Rightarrow> (Throw (AxiosError status), st)
         | Responded data \<Rightarrow>
             (case isVideoReady data of
                Inl e \<Rightarrow> (Throw e, st)
              | Inr ready \<Rightarrow>
                  if \<not> truthy ready then
                    (let requestId = js_or (prop_of data ''request_id'') (prop_of data ''id'');
                         statusUrl = prop_of data ''status_url''
                     in if \<not> truthy statusUrl \<and> truthy requestId then
                          start_polling srv onStatusUpdate data
                            (Str (''https://platform.higgsfield.ai/requests/'' @
                                  to_string requestId @ ''/status'')) hdrs st
                        else if \<not> truthy statusUrl \<and> \<not> truthy requestId then (Return data, st)
                        else start_polling srv onStatusUpdate data statusUrl hdrs st)
                  else (Return data, st)))"

section \<open>Reading a trace\<close>

fun progress_of :: "event list \<Rightarrow> jsval list" where
  "progress_of [] = []"
| "progress_of (Progress v # es) = v # progress_of es"
| "progress_of (e # es) = progress_of es"

fun posts_of :: "event list \<Rightarrow> post_request list" where
  "posts_of [] = []"
| "posts_of (Post r # es) = r # posts_of es"
| "posts_of (e # es) = posts_of es"

fun waits_of :: "event list \<Rightarrow> nat list" where
  "waits_of [] = []"
| "waits_of (Wait ms # es) = ms # waits_of es"
| "waits_of (e # es) = waits_of es"

fun gets_of :: "event list \<Rightarrow> (jsval \<times> headers) list" where
  "gets_of [] = []"
| "gets_of (Get url hdrs # es) = (url, hdrs) # gets_of es"
| "gets_of (e # es) = gets_of es"

text \<open>The events of the k-th pass of the loop.\<close>

definition poll_events :: "server \<Rightarrow> bool \<Rightarrow> jsval \<Rightarrow> headers \<Rightarrow> nat \<Rightarrow> event list" where
  "poll_events srv onStatusUpdate statusUrl hdrs k =
     [Wait POLLING_INTERVAL, Get statusUrl hdrs] @
     fst (poll_try onStatusUpdate (snd (get_reply srv k)))"

section \<open>Readiness as the specification words it\<close>

text \<open>The specification calls a response ready when it holds a resolvable video URL under
  one of four shapes: \<^verbatim>\<open>video.url\<close>, \<^verbatim>\<open>output\<close> holding a URL, the first element of a
  non-empty list under \<^verbatim>\<open>output\<close>, \<^verbatim>\<open>url\<close>. A resolvable URL is read here as a non-empty
  string, the widest reading.\<close>

fun spec_resolvable_url :: "jsval \<Rightarrow> bool" where
  "spec_resolvable_url (Str s) = (s \<noteq> [])"
| "spec_resolvable_url v = False"

fun spec_first_url :: "jsval \<Rightarrow> bool" where
  "spec_first_url (Arr (x # xs)) = spec_resolvable_url x"
| "spec_first_url v = False"


section \<open>One pass of the loop\<close>

lemma poll_state_sel [simp]:
  "clock (poll_state srv cb url hdrs st) =
     clock st + POLLING_INTERVAL + fst (get_reply srv (polls st))"
  "polls (poll_state srv cb url hdrs st) = Suc (polls st)"
  "trace (poll_state srv cb url hdrs st) =
     trace st @ [Wait POLLING_INTERVAL, Get url hdrs] @
     fst (poll_try cb (snd (get_reply srv (polls st))))"
  by (simp_all add: poll_state_def)

lemma poll_loop_expired:
  "\<not> clock st - startTime < TIMEOUT_MS \<Longrightarrow>
     poll_loop srv cb url hdrs startTime st = (Throw (JsError timeout_message), st)"
  by (simp add: poll_loop.simps)

lemma poll_loop_leave:
  "clock st - startTime < TIMEOUT_MS \<Longrightarrow>
   poll_attempt cb (snd (get_reply srv (polls st))) = Some out \<Longrightarrow>
     poll_loop srv cb url hdrs startTime st = (out, poll_state srv cb url hdrs st)"
  by (subst poll_loop.simps) simp

lemma poll_loop_again:
  "clock st - startTime < TIMEOUT_MS \<Longrightarrow>
   poll_attempt cb (snd (get_reply srv (polls st))) = None \<Longrightarrow>
     poll_loop srv cb url hdrs startTime st =
     poll_loop srv cb url hdrs startTime (poll_state srv cb url hdrs st)"
  by (subst poll_loop.simps) simp

text \<open>Induction along the passes of the loop, one case for each way a pass can go.\<close>

lemma poll_loop_passes [case_names expired leave again]:
  assumes "\<And>st. \<not> clock st - startTime < TIMEOUT_MS \<Longrightarrow> P st"
    and "\<And>st out. clock st - startTime < TIMEOUT_MS \<Longrightarrow>
           poll_attempt cb (snd (get_reply srv (polls st))) = Some out \<Longrightarrow> P st"
    and "\<And>st. clock st - startTime < TIMEOUT_MS \<Longrightarrow>
           poll_attempt cb (snd (get_reply srv (polls st))) = None \<Longrightarrow>
           P (poll_state srv cb url hdrs st) \<Longrightarrow> P st"
  shows "P st"
  using assms
proof (induction srv cb url hdrs startTime st rule: poll_loop.induct)
  case (1 srv cb url hdrs startTime st)
  show ?case
  proof (cases "clock st - startTime < TIMEOUT_MS")
    case False
    then show ?thesis by (rule "1.prems"(1))
  next
    case True
    show ?thesis
    proof (cases "poll_attempt cb (snd (get_reply srv (polls st)))")
      case None
      have "P (poll_state srv cb url hdrs st)"
        using True None "1.prems" by (rule "1.IH")
      with True None show ?thesis by (rule "1.prems"(3))
    next
      case (Some out)
      from True Some show ?thesis by (rule "1.prems"(2))
    qed
  qed
qed

section \<open>Invariants of the loop\<close>

lemma polls_mono:
  "polls st \<le> polls (snd (poll_loop srv cb url hdrs startTime st))"
proof (induction st rule: poll_loop_passes
    [where srv = srv and cb = cb and url = url and hdrs = hdrs and startTime = startTime])
  case (expired st)
  then show ?case by (simp add: poll_loop_expired)
next
  case (leave st out)
  then show ?case by (simp add: poll_loop_leave)
next
  case (again st)
  then show ?case by (simp add: poll_loop_again)
qed

lemma trace_loop:
  "trace (snd (poll_loop srv cb url hdrs startTime st)) =
   trace st @ concat (map (poll_events srv cb url hdrs)
     [polls st ..< polls (snd (poll_loop srv cb url hdrs startTime st))])"
proof (induction st rule: poll_loop_passes
    [where srv = srv and cb = cb and url = url and hdrs = hdrs and startTime = startTime])
  case (expired st)
  then show ?case by (simp add: poll_loop_expired)
next
  case (leave st out)
  then show ?case by (simp add: poll_loop_leave poll_events_def)
next
  case (again st)
  let ?n = "polls (snd (poll_loop srv cb url hdrs startTime (poll_state srv cb url hdrs st)))"
  have "Suc (polls st) \<le> ?n"
    using polls_mono [of "poll_state srv cb url hdrs st" srv cb url hdrs startTime] by simp
  then have "[polls st ..< ?n] = polls st # [Suc (polls st) ..< ?n]"
    by (simp add: upt_conv_Cons)
  with again show ?case by (simp add: poll_loop_again poll_events_def)
qed







section \<open>What one poll does, by its reply\<close>

lemma poll_try_calls:
  "fst (poll_try cb rep) =
     (case rep of
        Responded d \<Rightarrow>
          if nullish d then [] else notify cb (js_or (prop_of d ''status'') (Str ''in_progress''))
      | Failed status \<Rightarrow> [])"
  by (simp add: poll_try_def get_prop_def isVideoReady_def Let_def split: reply.splits)

lemma poll_attempt_failed:
  "poll_attempt cb (Failed status) =
     (case status of
        None \<Rightarrow> None
      | Some c \<Rightarrow> if 400 \<le> c \<and> c < 500 \<and> c \<noteq> 429 then Some (Throw (AxiosError status)) else None)"
  by (simp add: poll_attempt_def poll_try_def poll_catch_def split: option.splits)

lemma poll_attempt_done:
  "prop_of d ''status'' = Str ''completed'' \<or> prop_of d ''status'' = Str ''success'' \<Longrightarrow>
     poll_attempt cb (Responded d) = Some (Return d)"
  by (cases d) (auto simp: poll_attempt_def poll_try_def get_prop_def js_or_def Let_def)

lemma poll_attempt_null:
  "nullish d \<Longrightarrow> poll_attempt cb (Responded d) = None"
  by (simp add: poll_attempt_def poll_try_def get_prop_def poll_catch_def)


lemma poll_attempt_job_failed:
  assumes "isVideoReady d = Inr ready" and "\<not> truthy ready"
    and "prop_of d ''status'' = Str ''failed'' \<or> prop_of d ''status'' = Str ''nsfw''"
  shows "snd (poll_try cb (Responded d)) =
           Inl (JsError (''Video generation failed: '' @
                to_string (js_or (prop_of d ''error'') (prop_of d ''status''))))"
    and "poll_attempt cb (Responded d) = None"
proof -
  from assms(1) have "\<not> nullish d"
    by (auto simp: isVideoReady_def split: if_splits)
  with assms show "snd (poll_try cb (Responded d)) =
           Inl (JsError (''Video generation failed: '' @
                to_string (js_or (prop_of d ''error'') (prop_of d ''status''))))"
    by (auto simp: poll_try_def get_prop_def Let_def js_or_def)
  then show "poll_attempt cb (Responded d) = None"
    by (simp add: poll_attempt_def poll_catch_def)
qed

section \<open>The call, by the reply to the POST\<close>

lemma generate_failed:
  "snd (post_reply srv) = Failed status \<Longrightarrow>
     generateMemoryVideo srv imageUrl apiKey apiSecret cb now =
     (Throw (AxiosError status), post_state srv imageUrl apiKey apiSecret cb now)"
  by (simp add: generateMemoryVideo_def)

lemma generate_ready:
  "snd (post_reply srv) = Responded data \<Longrightarrow> isVideoReady data = Inr ready \<Longrightarrow> truthy ready \<Longrightarrow>
     generateMemoryVideo srv imageUrl apiKey apiSecret cb now =
     (Return data, post_state srv imageUrl apiKey apiSecret cb now)"
  by (simp add: generateMemoryVideo_def)

lemma generate_null:
  "snd (post_reply srv) = Responded data \<Longrightarrow> nullish data \<Longrightarrow>
     generateMemoryVideo srv imageUrl apiKey apiSecret cb now =
     (Throw TypeError, post_state srv imageUrl apiKey apiSecret cb now)"
  by (simp add: generateMemoryVideo_def isVideoReady_def)

lemma generate_untrackable:
  "snd (post_reply srv) = Responded data \<Longrightarrow> isVideoReady data = Inr ready \<Longrightarrow> \<not> truthy ready \<Longrightarrow>
   \<not> truthy (js_or (prop_of data ''request_id'') (prop_of data ''id'')) \<Longrightarrow>
   \<not> truthy (prop_of data ''status_url'') \<Longrightarrow>
     generateMemoryVideo srv imageUrl apiKey apiSecret cb now =
     (Return data, post_state srv imageUrl apiKey apiSecret cb now)"
  by (simp add: generateMemoryVideo_def Let_def)

lemma generate_derived:
  "snd (post_reply srv) = Responded data \<Longrightarrow> isVideoReady data = Inr ready \<Longrightarrow> \<not> truthy ready \<Longrightarrow>
   truthy (js_or (prop_of data ''request_id'') (prop_of data ''id'')) \<Longrightarrow>
   \<not> truthy (prop_of data ''status_url'') \<Longrightarrow>
     generateMemoryVideo srv imageUrl apiKey apiSecret cb now =
     start_polling srv cb data
       (Str (''https://platform.higgsfield.ai/requests/'' @
             to_string (js_or (prop_of data ''request_id'') (prop_of data ''id'')) @ ''/status''))
       (request_headers apiKey apiSecret) (post_state srv imageUrl apiKey apiSecret cb now)"
  by (simp add: generateMemoryVideo_def Let_def)

lemma generate_given:
  "snd (post_reply srv) = Responded data \<Longrightarrow> isVideoReady data = Inr ready \<Longrightarrow> \<not> truthy ready \<Longrightarrow>
   truthy (prop_of data ''status_url'') \<Longrightarrow>
     generateMemoryVideo srv imageUrl apiKey apiSecret cb now =
     start_polling srv cb data (prop_of data ''status_url'')
       (request_headers apiKey apiSecret) (post_state srv imageUrl apiKey apiSecret cb now)"
  by (simp add: generateMemoryVideo_def Let_def)

text \<open>Every call ends in the state after the POST or goes through \<open>start_polling\<close>.\<close>

lemma generate_shape:
  "(\<exists>out. generateMemoryVideo srv imageUrl apiKey apiSecret cb now =
       (out, post_state srv imageUrl apiKey apiSecret cb now)) \<or>
   (\<exists>data url. snd (post_reply srv) = Responded data \<and>
       generateMemoryVideo srv imageUrl apiKey apiSecret cb now =
       start_polling srv cb data url (request_headers apiKey apiSecret)
         (post_state srv imageUrl apiKey apiSecret cb now))"
proof (cases "snd (post_reply srv)")
  case (Failed status)
  then show ?thesis by (simp add: generate_failed)
next
  case (Responded data)
  show ?thesis
  proof (cases "isVideoReady data")
    case (Inl e)
    with Responded show ?thesis by (simp add: generateMemoryVideo_def)
  next
    case (Inr ready)
    show ?thesis
    proof (cases "truthy ready")
      case True
      with Responded Inr show ?thesis by (simp add: generate_ready)
    next
      case False
      with Responded Inr show ?thesis
        by (cases "truthy (prop_of data ''status_url'')";
            cases "truthy (js_or (prop_of data ''request_id'') (prop_of data ''id''))")
           (simp_all add: generate_given generate_derived generate_untrackable, blast+)
    qed
  qed
qed

section \<open>Traces of the loop, read through the observers\<close>

lemma progress_of_append [simp]: "progress_of (xs @ ys) = progress_of xs @ progress_of ys"
  by (induction xs rule: progress_of.induct) simp_all

lemma posts_of_append [simp]: "posts_of (xs @ ys) = posts_of xs @ posts_of ys"
  by (induction xs rule: posts_of.induct) simp_all

lemma waits_of_append [simp]: "waits_of (xs @ ys) = waits_of xs @ waits_of ys"
  by (induction xs rule: waits_of.induct) simp_all

lemma gets_of_append [simp]: "gets_of (xs @ ys) = gets_of xs @ gets_of ys"
  by (induction xs rule: gets_of.induct) simp_all

lemma notify_observed [simp]:
  "posts_of (notify cb v) = []" "waits_of (notify cb v) = []" "gets_of (notify cb v) = []"
  "progress_of (notify cb v) = (if cb then [v] else [])"
  by (simp_all add: notify_def)

lemma poll_try_observed [simp]:
  "posts_of (fst (poll_try cb rep)) = []"
  "waits_of (fst (poll_try cb rep)) = []"
  "gets_of (fst (poll_try cb rep)) = []"
  by (simp_all add: poll_try_calls split: reply.splits)

lemma poll_events_observed [simp]:
  "posts_of (poll_events srv cb url hdrs k) = []"
  "waits_of (poll_events srv cb url hdrs k) = [POLLING_INTERVAL]"
  "gets_of (poll_events srv cb url hdrs k) = [(url, hdrs)]"
  by (simp_all add: poll_events_def)

lemma poll_events_progress:
  "progress_of (poll_events srv True url hdrs k) =
     (case snd (get_reply srv k) of
        Responded d \<Rightarrow>
          if nullish d then [] else [js_or (prop_of d ''status'') (Str ''in_progress'')]
      | Failed status \<Rightarrow> [])"
  by (simp add: poll_events_def poll_try_calls split: reply.splits)

lemma passes_observed [simp]:
  "posts_of (concat (map (poll_events srv cb url hdrs) ks)) = []"
  "waits_of (concat (map (poll_events srv cb url hdrs) ks)) = replicate (length ks) POLLING_INTERVAL"
  "gets_of (concat (map (poll_events srv cb url hdrs) ks)) = replicate (length ks) (url, hdrs)"
  by (induction ks) simp_all

lemma passes_progress:
  "progress_of (concat (map (poll_events srv cb url hdrs) ks)) =
   concat (map (\<lambda>k. progress_of (poll_events srv cb url hdrs k)) ks)"
  by (induction ks) simp_all

section \<open>Entering the loop\<close>

lemma poll_loop_polls_once:
  assumes "clock st - startTime < TIMEOUT_MS"
  shows "polls st < polls (snd (poll_loop srv cb url hdrs startTime st))"
proof (cases "poll_attempt cb (snd (get_reply srv (polls st)))")
  case None
  with assms polls_mono [of "poll_state srv cb url hdrs st" srv cb url hdrs startTime]
  show ?thesis by (simp add: poll_loop_again)
next
  case (Some out)
  with assms show ?thesis by (simp add: poll_loop_leave)
qed

lemma post_state_sel [simp]:
  "clock (post_state srv imageUrl apiKey apiSecret cb now) = now + fst (post_reply srv)"
  "polls (post_state srv imageUrl apiKey apiSecret cb now) = 0"
  "trace (post_state srv imageUrl apiKey apiSecret cb now) =
     notify cb (Str ''Initializing...'') @ [Post (initial_request imageUrl apiKey apiSecret)]"
  by (simp_all add: post_state_def)

lemma start_polling_polls:
  "polls st < polls (snd (start_polling srv cb data url hdrs st))"
  using poll_loop_polls_once [of
      "st\<lparr>trace := trace st @ notify cb (js_or (prop_of data ''status'') (Str ''Queued''))\<rparr>"
      "clock st" srv cb url hdrs]
  by (simp add: start_polling_def Let_def TIMEOUT_MS_def)

lemma start_polling_trace:
  "trace (snd (start_polling srv cb data url hdrs st)) =
   trace st @ notify cb (js_or (prop_of data ''status'') (Str ''Queued'')) @
   concat (map (poll_events srv cb url hdrs)
     [polls st ..< polls (snd (start_polling srv cb data url hdrs st))])"
  using trace_loop [of srv cb url hdrs "clock st"
      "st\<lparr>trace := trace st @ notify cb (js_or (prop_of data ''status'') (Str ''Queued''))\<rparr>"]
  by (simp add: start_polling_def Let_def)


section \<open>The time budget\<close>




section \<open>Readiness\<close>




lemma first_url_defined: "spec_first_url (prop_of v k) \<Longrightarrow> \<not> nullish v"
  by (cases v) simp_all



text \<open>The readiness check on an empty list under \<^verbatim>\<open>output\<close>: the list is truthy, so the
  check answers with it before the test of its length is reached.\<close>

lemma empty_output_list_is_ready:
  "isVideoReady (Obj [(''output'', Arr [])]) = Inr (Arr [])"
  by (simp add: isVideoReady_def js_or_def opt_chain_def)

section \<open>The first poll of a call\<close>

text \<open>The loop is the tail of the call, so what a pass of the loop returns or throws is what
  the call returns or throws. For the first poll of a call that polls:\<close>

lemma generate_polls:
  assumes "snd (post_reply srv) = Responded data"
    and "isVideoReady data = Inr ready" and "\<not> truthy ready"
    and "truthy (js_or (prop_of data ''request_id'') (prop_of data ''id''))
         \<or> truthy (prop_of data ''status_url'')"
  obtains url where "generateMemoryVideo srv imageUrl apiKey apiSecret cb now =
     start_polling srv cb data url (request_headers apiKey apiSecret)
       (post_state srv imageUrl apiKey apiSecret cb now)"
  using assms
  by (cases "truthy (prop_of data ''status_url'')") (auto simp: generate_given generate_derived)

lemma start_polling_first_leave:
  assumes "poll_attempt cb (snd (get_reply srv (polls st))) = Some out"
  shows "fst (start_polling srv cb data url hdrs st) = out"
    and "polls (snd (start_polling srv cb data url hdrs st)) = Suc (polls st)"
proof -
  let ?st = "st\<lparr>trace := trace st @ notify cb (js_or (prop_of data ''status'') (Str ''Queued''))\<rparr>"
  have "poll_loop srv cb url hdrs (clock ?st) ?st = (out, poll_state srv cb url hdrs ?st)"
    using assms by (intro poll_loop_leave) (simp_all add: TIMEOUT_MS_def)
  then show "fst (start_polling srv cb data url hdrs st) = out"
    and "polls (snd (start_polling srv cb data url hdrs st)) = Suc (polls st)"
    by (simp_all add: start_polling_def Let_def)
qed

lemma first_poll_rejected:
  assumes "snd (post_reply srv) = Responded data"
    and "isVideoReady data = Inr ready" and "\<not> truthy ready"
    and "truthy (js_or (prop_of data ''request_id'') (prop_of data ''id''))
         \<or> truthy (prop_of data ''status_url'')"
    and "snd (get_reply srv 0) = Failed (Some c)"
    and "400 \<le> c" and "c < 500" and "c \<noteq> 429"
  shows "fst (generateMemoryVideo srv imageUrl apiKey apiSecret cb now) = Throw (AxiosError (Some c))
       \<and> polls (snd (generateMemoryVideo srv imageUrl apiKey apiSecret cb now)) = 1"
proof -
  from assms(1-4) obtain url where run:
    "generateMemoryVideo srv imageUrl apiKey apiSecret cb now =
     start_polling srv cb data url (request_headers apiKey apiSecret)
       (post_state srv imageUrl apiKey apiSecret cb now)"
    by (rule generate_polls)
  have "poll_attempt cb (snd (get_reply srv (polls (post_state srv imageUrl apiKey apiSecret cb now))))
      = Some (Throw (AxiosError (Some c)))"
    using assms(5-8) by (simp add: poll_attempt_failed)
  then show ?thesis
    unfolding run by (simp add: start_polling_first_leave)
qed

lemma first_poll_completed:
  assumes "snd (post_reply srv) = Responded data"
    and "isVideoReady data = Inr ready" and "\<not> truthy ready"
    and "truthy (js_or (prop_of data ''request_id'') (prop_of data ''id''))
         \<or> truthy (prop_of data ''status_url'')"
    and "snd (get_reply srv 0) = Responded d"
    and "prop_of d ''status'' = Str ''completed'' \<or> prop_of d ''status'' = Str ''success''"
  shows "fst (generateMemoryVideo srv imageUrl apiKey apiSecret cb now) = Return d
       \<and> polls (snd (generateMemoryVideo srv imageUrl apiKey apiSecret cb now)) = 1"
proof -
  from assms(1-4) obtain url where run:
    "generateMemoryVideo srv imageUrl apiKey apiSecret cb now =
     start_polling srv cb data url (request_headers apiKey apiSecret)
       (post_state srv imageUrl apiKey apiSecret cb now)"
    by (rule generate_polls)
  have "poll_attempt cb (snd (get_reply srv (polls (post_state srv imageUrl apiKey apiSecret cb now))))
      = Some (Return d)"
    using assms(5,6) by (simp add: poll_attempt_done)
  then show ?thesis
    unfolding run by (simp add: start_polling_first_leave)
qed

section \<open>The claims\<close>

text \<open>
  C1. What the code does on a response with the status \<^verbatim>\<open>failed\<close>: the \<^verbatim>\<open>try\<close> block
  throws \<^verbatim>\<open>Error("Video generation failed: quota exceeded")\<close>, with the detail of the
  server; the \<^verbatim>\<open>catch\<close> block of the same pass catches it, finds no \<^verbatim>\<open>response\<close> on it
  and swallows it. The run below polls a second time and returns the second response:
  the failure is not terminal.
\<close>

theorem failed_status_keeps_polling:
  "snd (poll_try True (Responded (Obj [(''status'', Str ''failed''), (''error'', Str ''quota exceeded'')])))
     = Inl (JsError ''Video generation failed: quota exceeded'')
   \<and> poll_catch (JsError ''Video generation failed: quota exceeded'') = None
   \<and> generateMemoryVideo
        \<lparr>post_reply = (0, Responded (Obj [(''request_id'', Str ''r1'')])),
         get_reply = (\<lambda>k. if k = 0
            then (0, Responded (Obj [(''status'', Str ''failed''), (''error'', Str ''quota exceeded'')]))
            else (0, Responded (Obj [(''status'', Str ''completed'')])))\<rparr>
        ''img'' ''key'' ''secret'' True 0
     = (Return (Obj [(''status'', Str ''completed'')]),
        \<lparr>clock = 10000, polls = 2,
         trace = [Progress (Str ''Initializing...''), Post (initial_request ''img'' ''key'' ''secret''),
                  Progress (Str ''Queued''),
                  Wait 5000,
                  Get (Str ''https://platform.higgsfield.ai/requests/r1/status'')
                      (request_headers ''key'' ''secret''),
                  Progress (Str ''failed''),
                  Wait 5000,
                  Get (Str ''https://platform.higgsfield.ai/requests/r1/status'')
                      (request_headers ''key'' ''secret''),
                  Progress (Str ''completed'')]\<rparr>)"
  by (simp add: generateMemoryVideo_def isVideoReady_def js_or_def opt_chain_def get_prop_def
      start_polling_def post_state_def notify_def Let_def poll_loop.simps poll_attempt_def
      poll_try_def poll_catch_def poll_state_def TIMEOUT_MS_def POLLING_INTERVAL_def)




text \<open>
  C3. A poll whose GET is rejected (the loop condition held before it): when the error
  carries an HTTP status from 400 to 499 other than 429, the call throws that error after
  this one GET. For every other rejection (no response, 429, any status outside 400..499)
  the loop goes on from the state after the pass with the same \<^verbatim>\<open>startTime\<close>, the clock
  advanced by the wait and the latency; so when the budget still holds and the next
  response has the status \<^verbatim>\<open>completed\<close>, the call returns that response.
\<close>

theorem poll_error_classification:
  assumes "clock st - startTime < TIMEOUT_MS"
    and "snd (get_reply srv (polls st)) = Failed status"
  shows "((\<exists>c. status = Some c \<and> 400 \<le> c \<and> c < 500 \<and> c \<noteq> 429) \<longrightarrow>
            poll_loop srv cb url hdrs startTime st =
              (Throw (AxiosError status), poll_state srv cb url hdrs st))
       \<and> (\<not> (\<exists>c. status = Some c \<and> 400 \<le> c \<and> c < 500 \<and> c \<noteq> 429) \<longrightarrow>
            poll_loop srv cb url hdrs startTime st =
              poll_loop srv cb url hdrs startTime (poll_state srv cb url hdrs st)
            \<and> clock (poll_state srv cb url hdrs st) =
                clock st + POLLING_INTERVAL + fst (get_reply srv (polls st))
            \<and> (clock (poll_state srv cb url hdrs st) - startTime < TIMEOUT_MS
                \<and> snd (get_reply srv (Suc (polls st))) = Responded data
                \<and> prop_of data ''status'' = Str ''completed'' \<longrightarrow>
                  fst (poll_loop srv cb url hdrs startTime st) = Return data))"
proof (intro conjI impI)
  assume "\<exists>c. status = Some c \<and> 400 \<le> c \<and> c < 500 \<and> c \<noteq> 429"
  then have "poll_attempt cb (Failed status) = Some (Throw (AxiosError status))"
    by (auto simp: poll_attempt_failed)
  with assms show "poll_loop srv cb url hdrs startTime st =
      (Throw (AxiosError status), poll_state srv cb url hdrs st)"
    by (simp add: poll_loop_leave)
next
  assume "\<not> (\<exists>c. status = Some c \<and> 400 \<le> c \<and> c < 500 \<and> c \<noteq> 429)"
  then have "poll_attempt cb (Failed status) = None"
    by (auto simp: poll_attempt_failed split: option.splits)
  with assms show again: "poll_loop srv cb url hdrs startTime st =
      poll_loop srv cb url hdrs startTime (poll_state srv cb url hdrs st)"
    by (simp add: poll_loop_again)
  show "clock (poll_state srv cb url hdrs st) =
      clock st + POLLING_INTERVAL + fst (get_reply srv (polls st))"
    by simp
  assume "clock (poll_state srv cb url hdrs st) - startTime < TIMEOUT_MS
      \<and> snd (get_reply srv (Suc (polls st))) = Responded data
      \<and> prop_of data ''status'' = Str ''completed''"
  then have "poll_loop srv cb url hdrs startTime (poll_state srv cb url hdrs st) =
      (Return data, poll_state srv cb url hdrs (poll_state srv cb url hdrs st))"
    by (intro poll_loop_leave) (simp_all add: poll_attempt_done)
  with again show "fst (poll_loop srv cb url hdrs startTime st) = Return data"
    by simp
qed

theorem poll_error_classification_witness:
  "clock \<lparr>clock = 0, polls = 0, trace = []\<rparr> - 0 < TIMEOUT_MS
   \<and> snd (get_reply \<lparr>post_reply = (0, Failed None), get_reply = (\<lambda>k. (40, Failed (Some 404)))\<rparr>
            (polls \<lparr>clock = 0, polls = 0, trace = []\<rparr>)) = Failed (Some 404)
   \<and> poll_loop \<lparr>post_reply = (0, Failed None), get_reply = (\<lambda>k. (40, Failed (Some 404)))\<rparr>
        True (Str ''u'') [] 0 \<lparr>clock = 0, polls = 0, trace = []\<rparr>
      = (Throw (AxiosError (Some 404)),
         \<lparr>clock = 5040, polls = 1, trace = [Wait 5000, Get (Str ''u'') []]\<rparr>)
   \<and> snd (get_reply \<lparr>post_reply = (0, Failed None),
                     get_reply = (\<lambda>k. if k = 0 then (40, Failed (Some 429))
                                      else (40, Responded (Obj [(''status'', Str ''completed'')])))\<rparr>
            (polls \<lparr>clock = 0, polls = 0, trace = []\<rparr>)) = Failed (Some 429)
   \<and> fst (poll_loop \<lparr>post_reply = (0, Failed None),
                     get_reply = (\<lambda>k. if k = 0 then (40, Failed (Some 429))
                                      else (40, Responded (Obj [(''status'', Str ''completed'')])))\<rparr>
        True (Str ''u'') [] 0 \<lparr>clock = 0, polls = 0, trace = []\<rparr>)
      = Return (Obj [(''status'', Str ''completed'')])"
proof -
  let ?st = "\<lparr>clock = 0, polls = 0, trace = []\<rparr>"
  let ?refusing = "\<lparr>post_reply = (0, Failed None), get_reply = (\<lambda>k. (40, Failed (Some 404)))\<rparr>"
  let ?limiting = "\<lparr>post_reply = (0, Failed None),
                     get_reply = (\<lambda>k. if k = 0 then (40, Failed (Some 429))
                                      else (40, Responded (Obj [(''status'', Str ''completed'')])))\<rparr>"
  have budget: "clock ?st - 0 < TIMEOUT_MS"
    by (simp add: TIMEOUT_MS_def)
  have refused: "snd (get_reply ?refusing (polls ?st)) = Failed (Some 404)"
    by simp
  have limited: "snd (get_reply ?limiting (polls ?st)) = Failed (Some 429)"
    by simp
  have stop: "poll_loop ?refusing True (Str ''u'') [] 0 ?st =
      (Throw (AxiosError (Some 404)),
       \<lparr>clock = 5040, polls = 1, trace = [Wait 5000, Get (Str ''u'') []]\<rparr>)"
    using poll_error_classification [OF budget refused, of True "Str ''u''" "[]"]
    by (simp add: POLLING_INTERVAL_def poll_state_def poll_try_calls)
  have "clock (poll_state ?limiting True (Str ''u'') [] ?st) - 0 < TIMEOUT_MS
      \<and> snd (get_reply ?limiting (Suc (polls ?st))) = Responded (Obj [(''status'', Str ''completed'')])
      \<and> prop_of (Obj [(''status'', Str ''completed'')]) ''status'' = Str ''completed''"
    by (simp add: TIMEOUT_MS_def POLLING_INTERVAL_def)
  then have resolve: "fst (poll_loop ?limiting True (Str ''u'') [] 0 ?st) =
      Return (Obj [(''status'', Str ''completed'')])"
    using poll_error_classification [OF budget limited, of True "Str ''u''" "[]"
        "Obj [(''status'', Str ''completed'')]"]
    by blast
  show ?thesis
    by (intro conjI; fact budget refused stop limited resolve)
qed





text \<open>
  C6. When the reply to the POST is not ready and has no truthy \<^verbatim>\<open>request_id\<close>, \<^verbatim>\<open>id\<close>
  or \<^verbatim>\<open>status_url\<close>, the call returns that body as its result: nothing is thrown, and the
  run ends in the state the POST left, with no wait and no GET.
\<close>

theorem untrackable_response_returned:
  assumes "snd (post_reply srv) = Responded data"
    and "isVideoReady data = Inr ready" and "\<not> truthy ready"
    and "\<not> truthy (prop_of data ''request_id'')" and "\<not> truthy (prop_of data ''id'')"
    and "\<not> truthy (prop_of data ''status_url'')"
  shows "generateMemoryVideo srv imageUrl apiKey apiSecret cb now =
           (Return data,
            \<lparr>clock = now + fst (post_reply srv), polls = 0,
             trace = notify cb (Str ''Initializing...'') @
                     [Post (initial_request imageUrl apiKey apiSecret)]\<rparr>)"
  using assms by (simp add: generate_untrackable js_or_def post_state_def)

theorem untrackable_response_returned_witness:
  "snd (post_reply \<lparr>post_reply = (250, Responded (Obj [(''message'', Str ''accepted'')])),
                    get_reply = (\<lambda>k. (0, Failed None))\<rparr>)
     = Responded (Obj [(''message'', Str ''accepted'')])
   \<and> isVideoReady (Obj [(''message'', Str ''accepted'')]) = Inr (Bool False)
   \<and> \<not> truthy (Bool False)
   \<and> \<not> truthy (prop_of (Obj [(''message'', Str ''accepted'')]) ''request_id'')
   \<and> \<not> truthy (prop_of (Obj [(''message'', Str ''accepted'')]) ''id'')
   \<and> \<not> truthy (prop_of (Obj [(''message'', Str ''accepted'')]) ''status_url'')
   \<and> generateMemoryVideo
        \<lparr>post_reply = (250, Responded (Obj [(''message'', Str ''accepted'')])),
         get_reply = (\<lambda>k. (0, Failed None))\<rparr>
        ''https://example.com/cat.png'' ''key'' ''secret'' True 1000
       = (Return (Obj [(''message'', Str ''accepted'')]),
          \<lparr>clock = 1250, polls = 0,
           trace = [Progress (Str ''Initializing...''),
                    Post (initial_request ''https://example.com/cat.png'' ''key'' ''secret'')]\<rparr>)"
  using untrackable_response_returned
    [of "\<lparr>post_reply = (250, Responded (Obj [(''message'', Str ''accepted'')])),
          get_reply = (\<lambda>k. (0, Failed None))\<rparr>"
        "Obj [(''message'', Str ''accepted'')]" "Bool False"
        "''https://example.com/cat.png''" "''key''" "''secret''" True 1000]
  by (simp add: isVideoReady_def js_or_def opt_chain_def notify_def)

text \<open>
  C7. Every call sends exactly one POST, whatever the service replies: to the job endpoint,
  with the fixed payload (prompt, model, seed, one motion with \<^verbatim>\<open>id\<close> and \<^verbatim>\<open>strength\<close>, the
  image URL at the root and inside the one \<^verbatim>\<open>input_images\<close> entry of type \<^verbatim>\<open>image_url\<close>,
  both flags true), the content type and the two credential headers, and a timeout of
  30000 ms.
\<close>

theorem initial_post_request:
  "posts_of (trace (snd (generateMemoryVideo srv imageUrl apiKey apiSecret cb now))) =
     [\<lparr>post_url = ''https://platform.higgsfield.ai/higgsfield-ai/dop/lite'',
       post_body = Obj
         [(''prompt'', Str ''recreate the uploaded image into a real-life motion like video''),
          (''image2video_model'', Str ''dop-lite''),
          (''seed'', Num 36644),
          (''motions'', Arr [Obj [(''id'', Str ''31177282-bde3-4870-b283-1135ca0a201a''),
                                  (''strength'', Num 1)]]),
          (''image_url'', Str imageUrl),
          (''input_images'', Arr [Obj [(''type'', Str ''image_url''),
                                       (''image_url'', Str imageUrl)]]),
          (''enhance_prompt'', Bool True),
          (''check_nsfw'', Bool True)],
       post_headers = [(''Content-Type'', ''application/json''),
                       (''hf-api-key'', apiKey), (''hf-secret'', apiSecret)],
       post_timeout = 30000\<rparr>]"
proof -
  have req: "initial_request imageUrl apiKey apiSecret =
     \<lparr>post_url = ''https://platform.higgsfield.ai/higgsfield-ai/dop/lite'',
       post_body = Obj
         [(''prompt'', Str ''recreate the uploaded image into a real-life motion like video''),
          (''image2video_model'', Str ''dop-lite''),
          (''seed'', Num 36644),
          (''motions'', Arr [Obj [(''id'', Str ''31177282-bde3-4870-b283-1135ca0a201a''),
                                  (''strength'', Num 1)]]),
          (''image_url'', Str imageUrl),
          (''input_images'', Arr [Obj [(''type'', Str ''image_url''),
                                       (''image_url'', Str imageUrl)]]),
          (''enhance_prompt'', Bool True),
          (''check_nsfw'', Bool True)],
       post_headers = [(''Content-Type'', ''application/json''),
                       (''hf-api-key'', apiKey), (''hf-secret'', apiSecret)],
       post_timeout = 30000\<rparr>"
    by (simp add: initial_request_def API_URL_def payload_def request_headers_def)
  have "posts_of (trace (snd (generateMemoryVideo srv imageUrl apiKey apiSecret cb now))) =
        [initial_request imageUrl apiKey apiSecret]"
    using generate_shape [of srv imageUrl apiKey apiSecret cb now]
  proof (elim disjE exE)
    fix out
    assume "generateMemoryVideo srv imageUrl apiKey apiSecret cb now =
       (out, post_state srv imageUrl apiKey apiSecret cb now)"
    then show ?thesis by simp
  next
    fix data url
    assume "snd (post_reply srv) = Responded data \<and>
       generateMemoryVideo srv imageUrl apiKey apiSecret cb now =
       start_polling srv cb data url (request_headers apiKey apiSecret)
         (post_state srv imageUrl apiKey apiSecret cb now)"
    then show ?thesis by (simp add: start_polling_trace)
  qed
  with req show ?thesis by simp
qed

text \<open>
  C8. With a callback, the calls of the callback over a whole run are, in this order:
  \<^verbatim>\<open>Initializing...\<close>; when the run polls, the status of the reply to the POST (or
  \<^verbatim>\<open>Queued\<close>); then, for each poll in the order of the polls, exactly one call with the
  status of its response (\<^verbatim>\<open>in_progress\<close> when it has none) if the GET succeeded, and no
  call if the GET was rejected. Nothing follows the last poll of the run. (A body that is
  \<^verbatim>\<open>null\<close> has no status to read: the read throws, and the pass ends like a rejected GET.)
\<close>

theorem progress_calls_follow_polls:
  "progress_of (trace (snd (generateMemoryVideo srv imageUrl apiKey apiSecret True now))) =
     Str ''Initializing...'' #
     (if polls (snd (generateMemoryVideo srv imageUrl apiKey apiSecret True now)) = 0 then []
      else (case snd (post_reply srv) of
              Responded data \<Rightarrow> [js_or (prop_of data ''status'') (Str ''Queued'')]
            | Failed status \<Rightarrow> [])) @
     concat (map (\<lambda>k. case snd (get_reply srv k) of
                         Responded d \<Rightarrow>
                           if nullish d then []
                           else [js_or (prop_of d ''status'') (Str ''in_progress'')]
                       | Failed status \<Rightarrow> [])
       [0 ..< polls (snd (generateMemoryVideo srv imageUrl apiKey apiSecret True now))])"
  using generate_shape [of srv imageUrl apiKey apiSecret True now]
proof (elim disjE exE conjE)
  fix out
  assume "generateMemoryVideo srv imageUrl apiKey apiSecret True now =
       (out, post_state srv imageUrl apiKey apiSecret True now)"
  then show ?thesis by simp
next
  fix data url
  assume reply: "snd (post_reply srv) = Responded data"
    and run: "generateMemoryVideo srv imageUrl apiKey apiSecret True now =
       start_polling srv True data url (request_headers apiKey apiSecret)
         (post_state srv imageUrl apiKey apiSecret True now)"
  have "0 < polls (snd (start_polling srv True data url (request_headers apiKey apiSecret)
         (post_state srv imageUrl apiKey apiSecret True now)))"
    using start_polling_polls [of "post_state srv imageUrl apiKey apiSecret True now"] by simp
  with reply show ?thesis
    unfolding run
    by (subst start_polling_trace) (simp add: passes_progress poll_events_progress)
qed

text \<open>
  C9. Whenever the loop polls and the response has the status \<^verbatim>\<open>completed\<close> or
  \<^verbatim>\<open>success\<close>, the call returns that response body, after this one GET, whatever else the
  body holds: the readiness check is not consulted. The witness is a run whose body has
  none of the video URL fields.
\<close>

theorem terminal_success_status_resolves:
  assumes "clock st - startTime < TIMEOUT_MS"
    and "snd (get_reply srv (polls st)) = Responded data"
    and "prop_of data ''status'' = Str ''completed'' \<or> prop_of data ''status'' = Str ''success''"
  shows "poll_loop srv cb url hdrs startTime st = (Return data, poll_state srv cb url hdrs st)"
  using assms by (simp add: poll_loop_leave poll_attempt_done)

theorem terminal_success_status_resolves_witness:
  "clock \<lparr>clock = 120, polls = 0, trace = []\<rparr> - 120 < TIMEOUT_MS
   \<and> snd (get_reply \<lparr>post_reply = (120, Responded (Obj [(''id'', Str ''job-1'')])),
                     get_reply = (\<lambda>k. (80, Responded (Obj [(''status'', Str ''success'')])))\<rparr>
            (polls \<lparr>clock = 120, polls = 0, trace = []\<rparr>))
       = Responded (Obj [(''status'', Str ''success'')])
   \<and> prop_of (Obj [(''status'', Str ''success'')]) ''status'' = Str ''success''
   \<and> isVideoReady (Obj [(''status'', Str ''success'')]) = Inr (Bool False)
   \<and> poll_loop \<lparr>post_reply = (120, Responded (Obj [(''id'', Str ''job-1'')])),
                 get_reply = (\<lambda>k. (80, Responded (Obj [(''status'', Str ''success'')])))\<rparr>
        True (Str ''https://platform.higgsfield.ai/requests/job-1/status'') [] 120
        \<lparr>clock = 120, polls = 0, trace = []\<rparr>
       = (Return (Obj [(''status'', Str ''success'')]),
          \<lparr>clock = 5200, polls = 1,
           trace = [Wait 5000, Get (Str ''https://platform.higgsfield.ai/requests/job-1/status'') [],
                    Progress (Str ''success'')]\<rparr>)"
  using terminal_success_status_resolves
    [of "\<lparr>clock = 120, polls = 0, trace = []\<rparr>" 120
        "\<lparr>post_reply = (120, Responded (Obj [(''id'', Str ''job-1'')])),
          get_reply = (\<lambda>k. (80, Responded (Obj [(''status'', Str ''success'')])))\<rparr>"
        "Obj [(''status'', Str ''success'')]" True
        "Str ''https://platform.higgsfield.ai/requests/job-1/status''" "[]"]
  by (simp add: TIMEOUT_MS_def POLLING_INTERVAL_def poll_state_def poll_try_calls notify_def
      js_or_def isVideoReady_def opt_chain_def)



end
